theory Spec2Isabelle
  imports Main "HOL-Library.Word"
begin

unbundle bit_operations_syntax

section \<open>The Samsung s6e3ha8 MIPI-DSI panel driver\<close>

text \<open>
  A shallow embedding of \<^verbatim>\<open>drivers/gpu/drm/panel/panel-samsung-s6e3ha8.c\<close>: the five
  panel callbacks \<^verbatim>\<open>prepare\<close>, \<^verbatim>\<open>unprepare\<close>, \<^verbatim>\<open>enable\<close>, \<^verbatim>\<open>disable\<close> and
  \<^verbatim>\<open>get_modes\<close>, and the constant display mode.

  The callbacks only call into the regulator, GPIO, delay, MIPI-DSI and DRM subsystems.
  Each such call is recorded, with its arguments and its return value, in a trace that
  is part of the state, in the order in which the driver makes the calls; this is what a
  test double standing in for the subsystems observes. What the subsystems answer to the
  fallible calls is a parameter of every callback.
\<close>

subsection \<open>Handles and the driver's private structure\<close>

type_synonym device = nat
type_synonym mipi_dsi_device = nat
type_synonym gpio_desc = nat

text \<open>
  \<^verbatim>\<open>struct s6e3ha8\<close>. The two regulator handles \<^verbatim>\<open>supply[0]\<close> and \<^verbatim>\<open>supply[1]\<close> are
  two separate consumer handles obtained by the probe function (for \<^verbatim>\<open>"vddi"\<close> and
  \<^verbatim>\<open>"vci"\<close>); the model names each by its index in the array, so the array itself is
  not a field. The embedded \<^verbatim>\<open>struct drm_panel\<close> only serves \<^verbatim>\<open>container_of\<close>, so a
  callback takes the \<open>s6e3ha8\<close> value itself. \<open>reset_gpio\<close> is \<open>None\<close> for the
  \<^verbatim>\<open>NULL\<close> descriptor of an absent optional line.
\<close>

record s6e3ha8 =
  dev :: device
  reset_gpio :: "gpio_desc option"

definition to_mipi_dsi_device :: "device \<Rightarrow> mipi_dsi_device" where
  "to_mipi_dsi_device d = d"

subsection \<open>Calls observed at the subsystem boundary\<close>

datatype tear_mode = MIPI_DSI_DCS_TEAR_MODE_VBLANK | MIPI_DSI_DCS_TEAR_MODE_VHBLANK

datatype dcs_cmd =
    Enter_Sleep_Mode
  | Exit_Sleep_Mode
  | Set_Display_On
  | Set_Display_Off
  | Set_Tear_On tear_mode

datatype event =
    Regulator_Enable nat int
  | Regulator_Disable nat int
  | Gpiod_Set_Value "gpio_desc option" int
  | Udelay nat
  | Msleep nat
  | Dcs mipi_dsi_device dcs_cmd int

datatype log_entry =
    Dev_Error device string int
  | Error string

subsection \<open>The constant display mode and the connector\<close>

text \<open>
  \<^verbatim>\<open>struct drm_display_mode\<close>, with the fields the driver initialises or writes. The C
  initialiser leaves every other field zero.
\<close>

record drm_display_mode =
  clock :: int
  hdisplay :: int
  hsync_start :: int
  hsync_end :: int
  htotal :: int
  vdisplay :: int
  vsync_start :: int
  vsync_end :: int
  vtotal :: int
  vrefresh :: int
  width_mm :: int
  height_mm :: int
  type :: "32 word"
  name :: string

definition samsung_s6e3ha8_mode :: drm_display_mode where
  "samsung_s6e3ha8_mode =
     \<lparr> clock = 342651,
       hdisplay = 1440,
       hsync_start = 1440 + 116,
       hsync_end = 1440 + 116 + 44,
       htotal = 1440 + 116 + 44 + 116,
       vdisplay = 2960,
       vsync_start = 2960 + 124,
       vsync_end = 2960 + 124 + 120,
       vtotal = 2960 + 124 + 120 + 124,
       vrefresh = 60,
       width_mm = 70,
       height_mm = 144,
       type = 0,
       name = [] \<rparr>"

text \<open>
  \<^verbatim>\<open>struct drm_connector\<close>: its \<^verbatim>\<open>display_info\<close> (name and physical size) and its
  list of probed modes.
\<close>

record drm_display_info =
  info_name :: string
  info_width_mm :: int
  info_height_mm :: int

record drm_connector =
  display_info :: drm_display_info
  probed_modes :: "drm_display_mode list"

subsection \<open>The state outside the driver\<close>

text \<open>
  \<open>enabled i\<close> is the state of the supply behind \<^verbatim>\<open>supply[i]\<close>, \<open>reset_line\<close> is
  the logical state of the reset line (\<open>True\<close> is asserted, the panel held in reset),
  \<open>trace\<close> is the sequence of calls made so far, \<open>klog\<close> the kernel log and
  \<open>connector\<close> the connector the panel is attached to.
\<close>

record world =
  enabled :: "nat \<Rightarrow> bool"
  reset_line :: bool
  trace :: "event list"
  klog :: "log_entry list"
  connector :: drm_connector

text \<open>
  What the subsystems answer during one callback. A callback makes each fallible call
  at most once for each argument, so a reply per argument covers every behaviour of the
  subsystems during that callback.
\<close>

record env =
  regulator_enable_ret :: "nat \<Rightarrow> int"
  regulator_disable_ret :: "nat \<Rightarrow> int"
  dcs_ret :: "dcs_cmd \<Rightarrow> int"
  mode_duplicate_ok :: bool

subsection \<open>The subsystems\<close>

text \<open>
  Modelled from the spec: the regulator subsystem is not part of the driver file.
  A supply is a rail that is enabled or not (section 3); the call reports success as 0
  and the rail is then enabled, or a failure code and the rail is unchanged.
\<close>

definition regulator_enable :: "env \<Rightarrow> nat \<Rightarrow> world \<Rightarrow> int \<times> world" where
  "regulator_enable e i w =
     (let r = regulator_enable_ret e i in
      (r, w\<lparr> enabled := (if r = 0 then (enabled w)(i := True) else enabled w),
              trace := trace w @ [Regulator_Enable i r] \<rparr>))"

text \<open>
  Modelled from the spec: the regulator subsystem is not part of the driver file.
  The call reports an outcome, which the driver does not read (section 4.1, Unprepare,
  step 3); on success the rail is off.
\<close>

definition regulator_disable :: "env \<Rightarrow> nat \<Rightarrow> world \<Rightarrow> int \<times> world" where
  "regulator_disable e i w =
     (let r = regulator_disable_ret e i in
      (r, w\<lparr> enabled := (if r = 0 then (enabled w)(i := False) else enabled w),
              trace := trace w @ [Regulator_Disable i r] \<rparr>))"

text \<open>
  Modelled from the spec: the GPIO subsystem is not part of the driver file. The
  reset line is a single-bit line, asserted by a non-zero value (section 3), and it is
  optional (section 6): with no descriptor there is no line to drive, and the call
  returns nothing in either case.
\<close>

definition gpiod_set_value_cansleep :: "gpio_desc option \<Rightarrow> int \<Rightarrow> world \<Rightarrow> world" where
  "gpiod_set_value_cansleep desc v w =
     w\<lparr> reset_line := (case desc of None \<Rightarrow> reset_line w | Some g \<Rightarrow> v \<noteq> 0),
        trace := trace w @ [Gpiod_Set_Value desc v] \<rparr>"

text \<open>
  Modelled from the spec: a blocking busy-wait of at least the given number of
  microseconds (section 5); the model records the requested duration.
\<close>

definition udelay :: "nat \<Rightarrow> world \<Rightarrow> world" where
  "udelay n w = w\<lparr> trace := trace w @ [Udelay n] \<rparr>"

text \<open>
  Modelled from the spec: a blocking sleep of at least the given number of
  milliseconds (section 5); the model records the requested duration.
\<close>

definition msleep :: "nat \<Rightarrow> world \<Rightarrow> world" where
  "msleep n w = w\<lparr> trace := trace w @ [Msleep n] \<rparr>"

text \<open>
  Modelled from the spec: the DSI host is not part of the driver file. One DCS
  command is sent over the borrowed link and yields success (0) or a failure code
  (section 6).
\<close>

definition mipi_dsi_dcs_write :: "env \<Rightarrow> mipi_dsi_device \<Rightarrow> dcs_cmd \<Rightarrow> world \<Rightarrow> int \<times> world" where
  "mipi_dsi_dcs_write e dsi c w =
     (let r = dcs_ret e c in (r, w\<lparr> trace := trace w @ [Dcs dsi c r] \<rparr>))"

definition mipi_dsi_dcs_enter_sleep_mode :: "env \<Rightarrow> mipi_dsi_device \<Rightarrow> world \<Rightarrow> int \<times> world" where
  "mipi_dsi_dcs_enter_sleep_mode e dsi w = mipi_dsi_dcs_write e dsi Enter_Sleep_Mode w"

definition mipi_dsi_dcs_exit_sleep_mode :: "env \<Rightarrow> mipi_dsi_device \<Rightarrow> world \<Rightarrow> int \<times> world" where
  "mipi_dsi_dcs_exit_sleep_mode e dsi w = mipi_dsi_dcs_write e dsi Exit_Sleep_Mode w"

definition mipi_dsi_dcs_set_display_on :: "env \<Rightarrow> mipi_dsi_device \<Rightarrow> world \<Rightarrow> int \<times> world" where
  "mipi_dsi_dcs_set_display_on e dsi w = mipi_dsi_dcs_write e dsi Set_Display_On w"

definition mipi_dsi_dcs_set_display_off :: "env \<Rightarrow> mipi_dsi_device \<Rightarrow> world \<Rightarrow> int \<times> world" where
  "mipi_dsi_dcs_set_display_off e dsi w = mipi_dsi_dcs_write e dsi Set_Display_Off w"

definition mipi_dsi_dcs_set_tear_on ::
  "env \<Rightarrow> mipi_dsi_device \<Rightarrow> tear_mode \<Rightarrow> world \<Rightarrow> int \<times> world" where
  "mipi_dsi_dcs_set_tear_on e dsi m w = mipi_dsi_dcs_write e dsi (Set_Tear_On m) w"

definition LF :: string where
  "LF = [CHR 0x0A]"

definition DRM_DEV_ERROR :: "device \<Rightarrow> string \<Rightarrow> int \<Rightarrow> world \<Rightarrow> world" where
  "DRM_DEV_ERROR d fmt ret w = w\<lparr> klog := klog w @ [Dev_Error d fmt ret] \<rparr>"

definition DRM_ERROR :: "string \<Rightarrow> world \<Rightarrow> world" where
  "DRM_ERROR fmt w = w\<lparr> klog := klog w @ [Error fmt] \<rparr>"

subsection \<open>Power sequencing: unprepare and prepare\<close>

definition s6e3ha8_unprepare :: "env \<Rightarrow> s6e3ha8 \<Rightarrow> world \<Rightarrow> int \<times> world" where
  "s6e3ha8_unprepare e s6 w0 =
     (let dsi = to_mipi_dsi_device (dev s6);
          (ret, w1) = mipi_dsi_dcs_enter_sleep_mode e dsi w0
      in if ret \<noteq> 0 then
           (ret, DRM_DEV_ERROR (dev s6) (''failed to enter sleep mode (%d)'' @ LF) ret w1)
         else
           let w2 = gpiod_set_value_cansleep (reset_gpio s6) 1 w1;
               w3 = snd (regulator_disable e 0 w2);
               w4 = snd (regulator_disable e 1 w3)
           in (0, w4))"

definition s6e3ha8_prepare :: "env \<Rightarrow> s6e3ha8 \<Rightarrow> world \<Rightarrow> int \<times> world" where
  "s6e3ha8_prepare e s6 w0 =
     (let dsi = to_mipi_dsi_device (dev s6);
          (ret, w1) = regulator_enable e 0 w0
      in if ret \<noteq> 0 then
           (ret, DRM_DEV_ERROR (dev s6) (''failed to enable supply (%d)'' @ LF) ret w1)
         else
           let (ret, w2) = regulator_enable e 1 w1
           in if ret \<noteq> 0 then
                (ret, DRM_DEV_ERROR (dev s6) (''failed to enable supply (%d)'' @ LF) ret w2)
              else
                let w3 = gpiod_set_value_cansleep (reset_gpio s6) 1 w2;
                    w4 = udelay 10 w3;
                    w5 = gpiod_set_value_cansleep (reset_gpio s6) 0 w4;
                    w6 = msleep 120 w5;
                    (ret, w7) = mipi_dsi_dcs_set_tear_on e dsi MIPI_DSI_DCS_TEAR_MODE_VBLANK w6
                in if ret \<noteq> 0 then
                     (ret, DRM_DEV_ERROR (dev s6) (''failed to enable vblank TE (%d)'' @ LF) ret w7)
                   else
                     let (ret, w8) = mipi_dsi_dcs_exit_sleep_mode e dsi w7
                     in if ret \<noteq> 0 then
                          (ret, DRM_DEV_ERROR (dev s6) (''failed to exit sleep mode (%d)'' @ LF) ret w8)
                        else (0, w8))"

subsection \<open>Display output: enable and disable\<close>

definition s6e3ha8_enable :: "env \<Rightarrow> s6e3ha8 \<Rightarrow> world \<Rightarrow> int \<times> world" where
  "s6e3ha8_enable e s6 w0 =
     (let dsi = to_mipi_dsi_device (dev s6);
          (ret, w1) = mipi_dsi_dcs_set_display_on e dsi w0
      in if ret \<noteq> 0 then
           (ret, DRM_DEV_ERROR (dev s6) (''failed to turn display on (%d)'' @ LF) ret w1)
         else (0, w1))"

definition s6e3ha8_disable :: "env \<Rightarrow> s6e3ha8 \<Rightarrow> world \<Rightarrow> int \<times> world" where
  "s6e3ha8_disable e s6 w0 =
     (let dsi = to_mipi_dsi_device (dev s6);
          (ret, w1) = mipi_dsi_dcs_set_display_off e dsi w0
      in if ret \<noteq> 0 then
           (ret, DRM_DEV_ERROR (dev s6) (''failed to turn display off (%d)'' @ LF) ret w1)
         else (0, w1))"

subsection \<open>Mode description: get_modes\<close>

text \<open>
  Modelled from the spec: the constants below come from kernel headers that are not part
  of the driver file. The failure of get_modes is of the invalid-argument class
  (section 7), errno 22; the registered mode is marked driver-provided and preferred
  (section 4.1, DescribeModes), bits 6 and 3 of the mode type; the name buffer of the
  display info holds 32 bytes.
\<close>

definition EINVAL :: int where
  "EINVAL = 22"

definition DRM_MODE_TYPE_PREFERRED :: "32 word" where
  "DRM_MODE_TYPE_PREFERRED = push_bit 3 1"

definition DRM_MODE_TYPE_DRIVER :: "32 word" where
  "DRM_MODE_TYPE_DRIVER = push_bit 6 1"

definition DRM_DISPLAY_INFO_LEN :: nat where
  "DRM_DISPLAY_INFO_LEN = 32"

text \<open>
  C's \<^verbatim>\<open>strncpy\<close>, as the \<open>n\<close> bytes it leaves in the destination: the source up to
  its first NUL, cut at \<open>n\<close> bytes, and padded with NULs to \<open>n\<close> bytes.
\<close>

definition strncpy :: "string \<Rightarrow> nat \<Rightarrow> string" where
  "strncpy src n =
     (let s = takeWhile (\<lambda>c. c \<noteq> CHR 0x00) src
      in take n s @ replicate (n - length s) (CHR 0x00))"

text \<open>
  Modelled from the spec: the DRM mode helpers are not part of the driver file. The
  descriptor is duplicated into an allocation of the framework, which can fail
  (section 4.1, DescribeModes); the duplicate is a copy of the descriptor.
\<close>

definition drm_mode_duplicate :: "env \<Rightarrow> drm_display_mode \<Rightarrow> drm_display_mode option" where
  "drm_mode_duplicate e m = (if mode_duplicate_ok e then Some m else None)"

text \<open>
  \<^verbatim>\<open>drm_mode_set_name\<close> writes the name of the mode and nothing else. The text it
  prints is the framework's; it is the parameter \<open>fmt\<close>.
\<close>

definition drm_mode_set_name ::
  "(drm_display_mode \<Rightarrow> string) \<Rightarrow> drm_display_mode \<Rightarrow> drm_display_mode" where
  "drm_mode_set_name fmt m = m\<lparr> name := fmt m \<rparr>"

text \<open>
  Modelled from the spec: the mode is registered with the mode list of the framework
  (section 4.1, DescribeModes), at its end.
\<close>

definition drm_mode_probed_add :: "drm_display_mode \<Rightarrow> drm_connector \<Rightarrow> drm_connector" where
  "drm_mode_probed_add m c = c\<lparr> probed_modes := probed_modes c @ [m] \<rparr>"

definition s6e3ha8_get_modes ::
  "(drm_display_mode \<Rightarrow> string) \<Rightarrow> env \<Rightarrow> world \<Rightarrow> int \<times> world" where
  "s6e3ha8_get_modes fmt e w0 =
     (let c0 = connector w0;
          c1 = c0\<lparr> display_info := (display_info c0)
                 \<lparr> info_name := strncpy (''Samsung S6D16D0'' @ [CHR 0x00]) DRM_DISPLAY_INFO_LEN \<rparr> \<rparr>;
          w1 = w0\<lparr> connector := c1 \<rparr>
      in case drm_mode_duplicate e samsung_s6e3ha8_mode of
           None \<Rightarrow> (- EINVAL, DRM_ERROR (''bad mode or failed to add mode'' @ LF) w1)
         | Some mode0 \<Rightarrow>
             let mode1 = drm_mode_set_name fmt mode0;
                 mode2 = mode1\<lparr> type := DRM_MODE_TYPE_DRIVER OR DRM_MODE_TYPE_PREFERRED \<rparr>;
                 c2 = c1\<lparr> display_info := (display_info c1)\<lparr> info_width_mm := width_mm mode2 \<rparr> \<rparr>;
                 c3 = c2\<lparr> display_info := (display_info c2)\<lparr> info_height_mm := height_mm mode2 \<rparr> \<rparr>;
                 c4 = drm_mode_probed_add mode2 c3
             in (1, w1\<lparr> connector := c4 \<rparr>))"

subsection \<open>Concrete panels, subsystems and states\<close>

text \<open>
  A panel with a reset line and one without; subsystems that answer every call with
  success; a state with the panel unpowered and held in reset, and one with the panel
  powered and out of reset.
\<close>

definition panel0 :: s6e3ha8 where
  "panel0 = \<lparr> dev = 0, reset_gpio = Some 0 \<rparr>"

definition panel_noreset :: s6e3ha8 where
  "panel_noreset = \<lparr> dev = 0, reset_gpio = None \<rparr>"

definition env_ok :: env where
  "env_ok = \<lparr> regulator_enable_ret = (\<lambda>i. 0), regulator_disable_ret = (\<lambda>i. 0),
              dcs_ret = (\<lambda>c. 0), mode_duplicate_ok = True \<rparr>"

definition connector0 :: drm_connector where
  "connector0 = \<lparr> display_info = \<lparr> info_name = [], info_width_mm = 0, info_height_mm = 0 \<rparr>,
                  probed_modes = [] \<rparr>"

definition world_off :: world where
  "world_off = \<lparr> enabled = (\<lambda>i. False), reset_line = True, trace = [], klog = [],
                 connector = connector0 \<rparr>"

definition world_on :: world where
  "world_on = \<lparr> enabled = (\<lambda>i. True), reset_line = False, trace = [], klog = [],
                connector = connector0 \<rparr>"

text \<open>
  Subsystems in which one step fails with \<^verbatim>\<open>-EIO\<close> (errno 5): the second supply, every
  DCS command, only the exit-sleep command, and the allocation of the mode.
\<close>

definition env_supply1_fails :: env where
  "env_supply1_fails = env_ok\<lparr> regulator_enable_ret := (\<lambda>i. if i = 1 then - 5 else 0) \<rparr>"

definition env_link_down :: env where
  "env_link_down = env_ok\<lparr> dcs_ret := (\<lambda>c. - 5) \<rparr>"

definition env_exit_sleep_fails :: env where
  "env_exit_sleep_fails = env_ok\<lparr> dcs_ret := (\<lambda>c. if c = Exit_Sleep_Mode then - 5 else 0) \<rparr>"

definition env_no_memory :: env where
  "env_no_memory = env_ok\<lparr> mode_duplicate_ok := False \<rparr>"

text \<open>A naming function for the framework: width times height.\<close>

definition fmt_mode_name :: "drm_display_mode \<Rightarrow> string" where
  "fmt_mode_name m = ''1440x2960''"

section \<open>Properties of the driver\<close>

lemmas subsystem_defs =
  regulator_enable_def regulator_disable_def gpiod_set_value_cansleep_def udelay_def
  msleep_def mipi_dsi_dcs_write_def mipi_dsi_dcs_enter_sleep_mode_def
  mipi_dsi_dcs_exit_sleep_mode_def mipi_dsi_dcs_set_display_on_def
  mipi_dsi_dcs_set_display_off_def mipi_dsi_dcs_set_tear_on_def DRM_DEV_ERROR_def
  DRM_ERROR_def to_mipi_dsi_device_def

lemmas sample_defs =
  panel0_def env_ok_def world_off_def world_on_def connector0_def

subsection \<open>What each callback returns and calls, in every execution\<close>

lemma unprepare_ret:
  "fst (s6e3ha8_unprepare e s6 w) = dcs_ret e Enter_Sleep_Mode"
  by (simp add: s6e3ha8_unprepare_def subsystem_defs Let_def)

lemma unprepare_trace:
  "trace (snd (s6e3ha8_unprepare e s6 w)) =
     trace w @
     Dcs (dev s6) Enter_Sleep_Mode (dcs_ret e Enter_Sleep_Mode) #
     (if dcs_ret e Enter_Sleep_Mode \<noteq> 0 then []
      else [Gpiod_Set_Value (reset_gpio s6) 1,
            Regulator_Disable 0 (regulator_disable_ret e 0),
            Regulator_Disable 1 (regulator_disable_ret e 1)])"
  by (simp add: s6e3ha8_unprepare_def subsystem_defs Let_def)

lemma prepare_ret:
  "fst (s6e3ha8_prepare e s6 w) =
     (let r0 = regulator_enable_ret e 0; r1 = regulator_enable_ret e 1;
          t = dcs_ret e (Set_Tear_On MIPI_DSI_DCS_TEAR_MODE_VBLANK);
          x = dcs_ret e Exit_Sleep_Mode
      in if r0 \<noteq> 0 then r0 else if r1 \<noteq> 0 then r1 else if t \<noteq> 0 then t else x)"
  by (simp add: s6e3ha8_prepare_def subsystem_defs Let_def)

lemma prepare_trace:
  "trace (snd (s6e3ha8_prepare e s6 w)) =
     trace w @
     (let r0 = regulator_enable_ret e 0; r1 = regulator_enable_ret e 1;
          t = dcs_ret e (Set_Tear_On MIPI_DSI_DCS_TEAR_MODE_VBLANK);
          x = dcs_ret e Exit_Sleep_Mode
      in Regulator_Enable 0 r0 #
         (if r0 \<noteq> 0 then [] else
          Regulator_Enable 1 r1 #
          (if r1 \<noteq> 0 then [] else
           [Gpiod_Set_Value (reset_gpio s6) 1, Udelay 10,
            Gpiod_Set_Value (reset_gpio s6) 0, Msleep 120,
            Dcs (dev s6) (Set_Tear_On MIPI_DSI_DCS_TEAR_MODE_VBLANK) t] @
           (if t \<noteq> 0 then [] else [Dcs (dev s6) Exit_Sleep_Mode x]))))"
  by (simp add: s6e3ha8_prepare_def subsystem_defs Let_def)

lemma prepare_trace_cases:
  assumes "trace (snd (s6e3ha8_prepare e s6 w)) = trace w @ tr"
  obtains
    (fail0) "regulator_enable_ret e 0 \<noteq> 0"
      "tr = [Regulator_Enable 0 (regulator_enable_ret e 0)]"
  | (fail1) "regulator_enable_ret e 1 \<noteq> 0"
      "tr = [Regulator_Enable 0 0, Regulator_Enable 1 (regulator_enable_ret e 1)]"
  | (powered) rest where
      "tr = [Regulator_Enable 0 0, Regulator_Enable 1 0,
             Gpiod_Set_Value (reset_gpio s6) 1, Udelay 10,
             Gpiod_Set_Value (reset_gpio s6) 0, Msleep 120,
             Dcs (dev s6) (Set_Tear_On MIPI_DSI_DCS_TEAR_MODE_VBLANK)
               (dcs_ret e (Set_Tear_On MIPI_DSI_DCS_TEAR_MODE_VBLANK))] @ rest"
      "rest = [] \<or> rest = [Dcs (dev s6) Exit_Sleep_Mode (dcs_ret e Exit_Sleep_Mode)]"
  using assms unfolding prepare_trace same_append_eq
  by (cases "regulator_enable_ret e 0 = 0"; cases "regulator_enable_ret e 1 = 0";
      cases "dcs_ret e (Set_Tear_On MIPI_DSI_DCS_TEAR_MODE_VBLANK) = 0")
     (auto simp: Let_def)

lemma get_modes_ok:
  assumes "mode_duplicate_ok e"
  shows "fst (s6e3ha8_get_modes fmt e w) = 1"
    and "probed_modes (connector (snd (s6e3ha8_get_modes fmt e w))) =
           probed_modes (connector w) @
           [samsung_s6e3ha8_mode\<lparr> type := DRM_MODE_TYPE_DRIVER OR DRM_MODE_TYPE_PREFERRED,
                                   name := fmt samsung_s6e3ha8_mode \<rparr>]"
  using assms
  by (simp_all add: s6e3ha8_get_modes_def drm_mode_duplicate_def drm_mode_set_name_def
        drm_mode_probed_add_def Let_def)

lemma get_modes_fail:
  assumes "\<not> mode_duplicate_ok e"
  shows "fst (s6e3ha8_get_modes fmt e w) = - EINVAL"
    and "probed_modes (connector (snd (s6e3ha8_get_modes fmt e w))) = probed_modes (connector w)"
  using assms
  by (simp_all add: s6e3ha8_get_modes_def drm_mode_duplicate_def DRM_ERROR_def Let_def)

subsection \<open>Unprepare\<close>

text \<open>
  Claim C1, as the code has it. Every successful call of unprepare makes exactly four
  calls, in this order: the enter-sleep DCS command, the assertion of the reset line,
  the disabling of supply 0 and then the disabling of supply 1. The supplies are
  disabled in the order in which prepare enables them, not in the reverse order.
\<close>

theorem unprepare_success_trace:
  assumes "fst (s6e3ha8_unprepare e s6 w) = 0"
  shows "trace (snd (s6e3ha8_unprepare e s6 w)) =
           trace w @
           [Dcs (dev s6) Enter_Sleep_Mode 0,
            Gpiod_Set_Value (reset_gpio s6) 1,
            Regulator_Disable 0 (regulator_disable_ret e 0),
            Regulator_Disable 1 (regulator_disable_ret e 1)]"
  using assms by (simp add: unprepare_ret unprepare_trace)

theorem unprepare_success_trace_witness:
  "fst (s6e3ha8_unprepare env_ok panel0 world_on) = 0 \<and>
   trace (snd (s6e3ha8_unprepare env_ok panel0 world_on)) =
     [Dcs 0 Enter_Sleep_Mode 0, Gpiod_Set_Value (Some 0) 1,
      Regulator_Disable 0 0, Regulator_Disable 1 0]"
proof -
  have ok: "fst (s6e3ha8_unprepare env_ok panel0 world_on) = 0"
    by (simp add: unprepare_ret env_ok_def)
  show ?thesis
    using ok unprepare_success_trace [OF ok] by (simp add: sample_defs)
qed

text \<open>
  The claim C1 as it is written asks for supply 1 to be disabled before supply 0. On a
  powered panel whose subsystems all answer with success, unprepare succeeds and its
  calls are not that sequence.
\<close>

theorem unprepare_reverse_order_counterexample:
  "fst (s6e3ha8_unprepare env_ok panel0 world_on) = 0 \<and>
   trace (snd (s6e3ha8_unprepare env_ok panel0 world_on)) \<noteq>
     [Dcs 0 Enter_Sleep_Mode 0, Gpiod_Set_Value (Some 0) 1,
      Regulator_Disable 1 0, Regulator_Disable 0 0]"
  by (simp add: unprepare_ret unprepare_trace sample_defs)

text \<open>
  Claim C5. When the enter-sleep DCS command fails, unprepare returns the failure code
  of the command, that command is the only call made, and the state of both supplies and
  of the reset line is as before the call.
\<close>

theorem unprepare_sleep_failure:
  assumes "dcs_ret e Enter_Sleep_Mode \<noteq> 0"
  shows "fst (s6e3ha8_unprepare e s6 w) = dcs_ret e Enter_Sleep_Mode \<and>
         enabled (snd (s6e3ha8_unprepare e s6 w)) = enabled w \<and>
         reset_line (snd (s6e3ha8_unprepare e s6 w)) = reset_line w \<and>
         trace (snd (s6e3ha8_unprepare e s6 w)) =
           trace w @ [Dcs (dev s6) Enter_Sleep_Mode (dcs_ret e Enter_Sleep_Mode)]"
  using assms
  by (simp add: s6e3ha8_unprepare_def subsystem_defs Let_def)

theorem unprepare_sleep_failure_witness:
  "fst (s6e3ha8_unprepare env_link_down panel0 world_on) = - 5 \<and>
   enabled (snd (s6e3ha8_unprepare env_link_down panel0 world_on)) 0 \<and>
   enabled (snd (s6e3ha8_unprepare env_link_down panel0 world_on)) 1 \<and>
   \<not> reset_line (snd (s6e3ha8_unprepare env_link_down panel0 world_on)) \<and>
   trace (snd (s6e3ha8_unprepare env_link_down panel0 world_on)) =
     [Dcs 0 Enter_Sleep_Mode (- 5)]"
  using unprepare_sleep_failure [of env_link_down panel0 world_on]
  by (simp add: env_link_down_def sample_defs)

subsection \<open>Prepare\<close>

text \<open>
  Claim C2. When both supplies enable and both DCS commands succeed, prepare returns 0
  and, after the two supply enables, makes exactly these calls in this order: the reset
  line is asserted, a delay of 10 microseconds is requested, the reset line is
  de-asserted, a sleep of 120 milliseconds is requested, then the set-tear-on command
  with the vblank argument and the exit-sleep command are sent. This holds from every
  initial state, so also from the one with both supplies off and the reset line asserted.
\<close>

theorem prepare_success_trace:
  assumes "regulator_enable_ret e 0 = 0" and "regulator_enable_ret e 1 = 0"
    and "dcs_ret e (Set_Tear_On MIPI_DSI_DCS_TEAR_MODE_VBLANK) = 0"
    and "dcs_ret e Exit_Sleep_Mode = 0"
  shows "fst (s6e3ha8_prepare e s6 w) = 0 \<and>
         trace (snd (s6e3ha8_prepare e s6 w)) =
           trace w @
           [Regulator_Enable 0 0, Regulator_Enable 1 0] @
           [Gpiod_Set_Value (reset_gpio s6) 1, Udelay 10,
            Gpiod_Set_Value (reset_gpio s6) 0, Msleep 120,
            Dcs (dev s6) (Set_Tear_On MIPI_DSI_DCS_TEAR_MODE_VBLANK) 0,
            Dcs (dev s6) Exit_Sleep_Mode 0]"
  using assms by (simp add: prepare_ret prepare_trace)

theorem prepare_success_trace_witness:
  "\<not> enabled world_off 0 \<and> \<not> enabled world_off 1 \<and> reset_line world_off \<and>
   fst (s6e3ha8_prepare env_ok panel0 world_off) = 0 \<and>
   trace (snd (s6e3ha8_prepare env_ok panel0 world_off)) =
     [Regulator_Enable 0 0, Regulator_Enable 1 0,
      Gpiod_Set_Value (Some 0) 1, Udelay 10, Gpiod_Set_Value (Some 0) 0, Msleep 120,
      Dcs 0 (Set_Tear_On MIPI_DSI_DCS_TEAR_MODE_VBLANK) 0, Dcs 0 Exit_Sleep_Mode 0]"
  using prepare_success_trace [of env_ok panel0 world_off]
  by (simp add: sample_defs)

text \<open>
  Claim C3. Let \<open>tr\<close> be the calls of one execution of prepare, whatever the subsystems
  answer. A call that enables supply 1 comes strictly after a successful enable of
  supply 0, and a call that de-asserts the reset line (sets it to 0) comes strictly
  after a successful enable of supply 1, itself strictly after a successful enable of
  supply 0.
\<close>

theorem prepare_order:
  assumes "trace (snd (s6e3ha8_prepare e s6 w)) = trace w @ tr"
  shows "(\<forall>j < length tr. \<forall>r. tr ! j = Regulator_Enable 1 r \<longrightarrow>
            (\<exists>i < j. tr ! i = Regulator_Enable 0 0)) \<and>
         (\<forall>j < length tr. \<forall>g. tr ! j = Gpiod_Set_Value g 0 \<longrightarrow>
            (\<exists>k < j. tr ! k = Regulator_Enable 1 0 \<and>
               (\<exists>i < k. tr ! i = Regulator_Enable 0 0)))"
  using assms
proof (cases rule: prepare_trace_cases)
  case fail0
  then show ?thesis by simp
next
  case fail1
  then show ?thesis by (simp add: All_less_Suc Ex_less_Suc)
next
  case (powered rest)
  from powered(2) show ?thesis
  proof
    assume "rest = []"
    with powered(1) show ?thesis by (simp add: All_less_Suc Ex_less_Suc)
  next
    assume "rest = [Dcs (dev s6) Exit_Sleep_Mode (dcs_ret e Exit_Sleep_Mode)]"
    with powered(1) show ?thesis by (simp add: All_less_Suc Ex_less_Suc)
  qed
qed

theorem prepare_order_witness:
  "trace (snd (s6e3ha8_prepare env_ok panel0 world_off)) ! 1 = Regulator_Enable 1 0 \<and>
   (\<exists>i < 1. trace (snd (s6e3ha8_prepare env_ok panel0 world_off)) ! i = Regulator_Enable 0 0) \<and>
   trace (snd (s6e3ha8_prepare env_ok panel0 world_off)) ! 4 = Gpiod_Set_Value (Some 0) 0 \<and>
   (\<exists>k < 4. trace (snd (s6e3ha8_prepare env_ok panel0 world_off)) ! k = Regulator_Enable 1 0 \<and>
      (\<exists>i < k. trace (snd (s6e3ha8_prepare env_ok panel0 world_off)) ! i = Regulator_Enable 0 0))"
proof -
  let ?tr = "trace (snd (s6e3ha8_prepare env_ok panel0 world_off))"
  have tr: "?tr = trace world_off @ ?tr"
    by (simp add: world_off_def)
  have len: "length ?tr = 8"
    by (simp add: prepare_trace sample_defs)
  have e1: "?tr ! 1 = Regulator_Enable 1 0"
    by (simp add: prepare_trace sample_defs)
  have d4: "?tr ! 4 = Gpiod_Set_Value (Some 0) 0"
    by (simp add: prepare_trace sample_defs)
  have a: "\<exists>i < 1. ?tr ! i = Regulator_Enable 0 0"
    using prepare_order [OF tr, THEN conjunct1, rule_format, of 1 0] len e1 by simp
  have b: "\<exists>k < 4. ?tr ! k = Regulator_Enable 1 0 \<and> (\<exists>i < k. ?tr ! i = Regulator_Enable 0 0)"
    using prepare_order [OF tr, THEN conjunct2, rule_format, of 4 "Some 0"] len d4 by simp
  from e1 a d4 b show ?thesis
    by (intro conjI)
qed

text \<open>
  Claim C4. When supply 0 enables and supply 1 fails to enable, prepare returns the
  failure code of that enable, supply 0 is enabled afterwards, the two enables are the
  only calls made (no call on the reset line, no DCS command), and the reset line is as
  before the call.
\<close>

theorem prepare_supply1_failure:
  assumes "regulator_enable_ret e 0 = 0" and "regulator_enable_ret e 1 \<noteq> 0"
  shows "fst (s6e3ha8_prepare e s6 w) = regulator_enable_ret e 1 \<and>
         enabled (snd (s6e3ha8_prepare e s6 w)) 0 \<and>
         reset_line (snd (s6e3ha8_prepare e s6 w)) = reset_line w \<and>
         trace (snd (s6e3ha8_prepare e s6 w)) =
           trace w @ [Regulator_Enable 0 0, Regulator_Enable 1 (regulator_enable_ret e 1)]"
  using assms
  by (simp add: s6e3ha8_prepare_def subsystem_defs Let_def)

theorem prepare_supply1_failure_witness:
  "fst (s6e3ha8_prepare env_supply1_fails panel0 world_off) = - 5 \<and>
   enabled (snd (s6e3ha8_prepare env_supply1_fails panel0 world_off)) 0 \<and>
   reset_line (snd (s6e3ha8_prepare env_supply1_fails panel0 world_off)) \<and>
   trace (snd (s6e3ha8_prepare env_supply1_fails panel0 world_off)) =
     [Regulator_Enable 0 0, Regulator_Enable 1 (- 5)]"
  using prepare_supply1_failure [of env_supply1_fails panel0 world_off]
  by (simp add: env_supply1_fails_def sample_defs)

text \<open>
  Claim C10. When both supplies enable and then the set-tear-on command or the
  exit-sleep command fails, prepare returns the failure code of the first of the two
  that fails, both supplies are enabled afterwards, the reset line (when the panel has
  one) is de-asserted afterwards, and the calls end with the failed command: no supply is
  disabled and the reset line is not asserted again.
\<close>

theorem prepare_dcs_failure:
  assumes "regulator_enable_ret e 0 = 0" and "regulator_enable_ret e 1 = 0"
    and "dcs_ret e (Set_Tear_On MIPI_DSI_DCS_TEAR_MODE_VBLANK) \<noteq> 0 \<or>
         dcs_ret e Exit_Sleep_Mode \<noteq> 0"
  shows "fst (s6e3ha8_prepare e s6 w) \<noteq> 0 \<and>
         fst (s6e3ha8_prepare e s6 w) =
           (if dcs_ret e (Set_Tear_On MIPI_DSI_DCS_TEAR_MODE_VBLANK) \<noteq> 0
            then dcs_ret e (Set_Tear_On MIPI_DSI_DCS_TEAR_MODE_VBLANK)
            else dcs_ret e Exit_Sleep_Mode) \<and>
         enabled (snd (s6e3ha8_prepare e s6 w)) 0 \<and>
         enabled (snd (s6e3ha8_prepare e s6 w)) 1 \<and>
         (reset_gpio s6 \<noteq> None \<longrightarrow> \<not> reset_line (snd (s6e3ha8_prepare e s6 w))) \<and>
         trace (snd (s6e3ha8_prepare e s6 w)) =
           trace w @
           [Regulator_Enable 0 0, Regulator_Enable 1 0,
            Gpiod_Set_Value (reset_gpio s6) 1, Udelay 10,
            Gpiod_Set_Value (reset_gpio s6) 0, Msleep 120,
            Dcs (dev s6) (Set_Tear_On MIPI_DSI_DCS_TEAR_MODE_VBLANK)
              (dcs_ret e (Set_Tear_On MIPI_DSI_DCS_TEAR_MODE_VBLANK))] @
           (if dcs_ret e (Set_Tear_On MIPI_DSI_DCS_TEAR_MODE_VBLANK) \<noteq> 0 then []
            else [Dcs (dev s6) Exit_Sleep_Mode (dcs_ret e Exit_Sleep_Mode)])"
  using assms
  by (auto simp add: s6e3ha8_prepare_def subsystem_defs Let_def)

theorem prepare_dcs_failure_witness:
  "fst (s6e3ha8_prepare env_link_down panel0 world_off) = - 5 \<and>
   enabled (snd (s6e3ha8_prepare env_link_down panel0 world_off)) 0 \<and>
   enabled (snd (s6e3ha8_prepare env_link_down panel0 world_off)) 1 \<and>
   \<not> reset_line (snd (s6e3ha8_prepare env_link_down panel0 world_off)) \<and>
   trace (snd (s6e3ha8_prepare env_link_down panel0 world_off)) =
     [Regulator_Enable 0 0, Regulator_Enable 1 0,
      Gpiod_Set_Value (Some 0) 1, Udelay 10, Gpiod_Set_Value (Some 0) 0, Msleep 120,
      Dcs 0 (Set_Tear_On MIPI_DSI_DCS_TEAR_MODE_VBLANK) (- 5)] \<and>
   fst (s6e3ha8_prepare env_exit_sleep_fails panel0 world_off) = - 5 \<and>
   enabled (snd (s6e3ha8_prepare env_exit_sleep_fails panel0 world_off)) 0 \<and>
   enabled (snd (s6e3ha8_prepare env_exit_sleep_fails panel0 world_off)) 1 \<and>
   \<not> reset_line (snd (s6e3ha8_prepare env_exit_sleep_fails panel0 world_off)) \<and>
   trace (snd (s6e3ha8_prepare env_exit_sleep_fails panel0 world_off)) =
     [Regulator_Enable 0 0, Regulator_Enable 1 0,
      Gpiod_Set_Value (Some 0) 1, Udelay 10, Gpiod_Set_Value (Some 0) 0, Msleep 120,
      Dcs 0 (Set_Tear_On MIPI_DSI_DCS_TEAR_MODE_VBLANK) 0, Dcs 0 Exit_Sleep_Mode (- 5)]"
  using prepare_dcs_failure [of env_link_down panel0 world_off]
    prepare_dcs_failure [of env_exit_sleep_fails panel0 world_off]
  by (simp add: env_link_down_def env_exit_sleep_fails_def sample_defs)

subsection \<open>A panel without a reset line\<close>

text \<open>
  Claim C9. When the reset descriptor is absent, prepare and unprepare leave the state
  of the reset line as it was, and each returns what it returns for a panel that has a
  reset line and leaves the supplies as it leaves them for such a panel: no step fails,
  and none is skipped, on account of the missing line.
\<close>

theorem absent_reset_line:
  assumes "reset_gpio s6 = None"
  shows "reset_line (snd (s6e3ha8_prepare e s6 w)) = reset_line w \<and>
         reset_line (snd (s6e3ha8_unprepare e s6 w)) = reset_line w \<and>
         fst (s6e3ha8_prepare e s6 w) =
           fst (s6e3ha8_prepare e (s6\<lparr> reset_gpio := Some g \<rparr>) w) \<and>
         fst (s6e3ha8_unprepare e s6 w) =
           fst (s6e3ha8_unprepare e (s6\<lparr> reset_gpio := Some g \<rparr>) w) \<and>
         enabled (snd (s6e3ha8_prepare e s6 w)) =
           enabled (snd (s6e3ha8_prepare e (s6\<lparr> reset_gpio := Some g \<rparr>) w)) \<and>
         enabled (snd (s6e3ha8_unprepare e s6 w)) =
           enabled (snd (s6e3ha8_unprepare e (s6\<lparr> reset_gpio := Some g \<rparr>) w)) \<and>
         length (trace (snd (s6e3ha8_prepare e s6 w))) =
           length (trace (snd (s6e3ha8_prepare e (s6\<lparr> reset_gpio := Some g \<rparr>) w))) \<and>
         length (trace (snd (s6e3ha8_unprepare e s6 w))) =
           length (trace (snd (s6e3ha8_unprepare e (s6\<lparr> reset_gpio := Some g \<rparr>) w)))"
  using assms
  by (simp add: s6e3ha8_prepare_def s6e3ha8_unprepare_def subsystem_defs Let_def)

theorem absent_reset_line_witness:
  "reset_gpio panel_noreset = None \<and>
   fst (s6e3ha8_prepare env_ok panel_noreset world_off) = 0 \<and>
   reset_line (snd (s6e3ha8_prepare env_ok panel_noreset world_off)) \<and>
   enabled (snd (s6e3ha8_prepare env_ok panel_noreset world_off)) 0 \<and>
   enabled (snd (s6e3ha8_prepare env_ok panel_noreset world_off)) 1 \<and>
   length (trace (snd (s6e3ha8_prepare env_ok panel_noreset world_off))) = 8 \<and>
   fst (s6e3ha8_unprepare env_ok panel_noreset world_on) = 0 \<and>
   \<not> reset_line (snd (s6e3ha8_unprepare env_ok panel_noreset world_on)) \<and>
   \<not> enabled (snd (s6e3ha8_unprepare env_ok panel_noreset world_on)) 0 \<and>
   \<not> enabled (snd (s6e3ha8_unprepare env_ok panel_noreset world_on)) 1 \<and>
   length (trace (snd (s6e3ha8_unprepare env_ok panel_noreset world_on))) = 4"
proof -
  have none: "reset_gpio panel_noreset = None"
    by (simp add: panel_noreset_def)
  have same: "panel_noreset\<lparr> reset_gpio := Some 0 \<rparr> = panel0"
    by (simp add: panel_noreset_def panel0_def)
  have p: "fst (s6e3ha8_prepare env_ok panel0 world_off) = 0"
    "enabled (snd (s6e3ha8_prepare env_ok panel0 world_off)) 0"
    "enabled (snd (s6e3ha8_prepare env_ok panel0 world_off)) 1"
    "length (trace (snd (s6e3ha8_prepare env_ok panel0 world_off))) = 8"
    by (simp_all add: s6e3ha8_prepare_def subsystem_defs sample_defs Let_def)
  have u: "fst (s6e3ha8_unprepare env_ok panel0 world_on) = 0"
    "\<not> enabled (snd (s6e3ha8_unprepare env_ok panel0 world_on)) 0"
    "\<not> enabled (snd (s6e3ha8_unprepare env_ok panel0 world_on)) 1"
    "length (trace (snd (s6e3ha8_unprepare env_ok panel0 world_on))) = 4"
    by (simp_all add: s6e3ha8_unprepare_def subsystem_defs sample_defs Let_def)
  have off: "reset_line world_off" and on: "\<not> reset_line world_on"
    by (simp_all add: world_off_def world_on_def)
  from absent_reset_line [OF none, of env_ok world_off 0]
    absent_reset_line [OF none, of env_ok world_on 0]
  show ?thesis
    unfolding same using none p u off on by simp
qed

subsection \<open>Enable and disable\<close>

text \<open>
  Claim C8. In every execution, enable sends exactly one DCS command, set-display-on,
  and returns what the command returned; disable sends exactly one DCS command,
  set-display-off, and returns what the command returned. Neither changes the state of
  a supply or of the reset line.
\<close>

theorem enable_disable_effects:
  "fst (s6e3ha8_enable e s6 w) = dcs_ret e Set_Display_On \<and>
   trace (snd (s6e3ha8_enable e s6 w)) =
     trace w @ [Dcs (dev s6) Set_Display_On (dcs_ret e Set_Display_On)] \<and>
   enabled (snd (s6e3ha8_enable e s6 w)) = enabled w \<and>
   reset_line (snd (s6e3ha8_enable e s6 w)) = reset_line w \<and>
   fst (s6e3ha8_disable e s6 w) = dcs_ret e Set_Display_Off \<and>
   trace (snd (s6e3ha8_disable e s6 w)) =
     trace w @ [Dcs (dev s6) Set_Display_Off (dcs_ret e Set_Display_Off)] \<and>
   enabled (snd (s6e3ha8_disable e s6 w)) = enabled w \<and>
   reset_line (snd (s6e3ha8_disable e s6 w)) = reset_line w"
  by (simp add: s6e3ha8_enable_def s6e3ha8_disable_def subsystem_defs Let_def)

subsection \<open>Mode description\<close>

text \<open>
  Claim C6. When the framework duplicates the descriptor, get_modes returns 1 and adds
  exactly one mode to the probed modes of the connector, whose fields are hdisplay 1440,
  vdisplay 2960, htotal 1716, vtotal 3328, width 70 mm, height 144 mm and refresh 60 Hz.
  When the duplication fails, get_modes returns \<^verbatim>\<open>-EINVAL\<close> and adds no mode.
\<close>

theorem get_modes_result:
  "(mode_duplicate_ok e \<longrightarrow>
      fst (s6e3ha8_get_modes fmt e w) = 1 \<and>
      (\<exists>m. probed_modes (connector (snd (s6e3ha8_get_modes fmt e w))) =
             probed_modes (connector w) @ [m] \<and>
           hdisplay m = 1440 \<and> vdisplay m = 2960 \<and> htotal m = 1716 \<and> vtotal m = 3328 \<and>
           width_mm m = 70 \<and> height_mm m = 144 \<and> vrefresh m = 60)) \<and>
   (\<not> mode_duplicate_ok e \<longrightarrow>
      fst (s6e3ha8_get_modes fmt e w) = - EINVAL \<and>
      probed_modes (connector (snd (s6e3ha8_get_modes fmt e w))) = probed_modes (connector w))"
  using get_modes_ok [of e fmt w] get_modes_fail [of e fmt w]
  by (simp add: samsung_s6e3ha8_mode_def)

theorem get_modes_result_witness:
  "fst (s6e3ha8_get_modes fmt_mode_name env_ok world_off) = 1 \<and>
   (\<exists>m. probed_modes (connector (snd (s6e3ha8_get_modes fmt_mode_name env_ok world_off))) = [m] \<and>
        hdisplay m = 1440 \<and> vdisplay m = 2960 \<and> htotal m = 1716 \<and> vtotal m = 3328 \<and>
        width_mm m = 70 \<and> height_mm m = 144 \<and> vrefresh m = 60) \<and>
   fst (s6e3ha8_get_modes fmt_mode_name env_no_memory world_off) = - 22 \<and>
   probed_modes (connector (snd (s6e3ha8_get_modes fmt_mode_name env_no_memory world_off))) = []"
  using get_modes_result [of env_ok fmt_mode_name world_off]
    get_modes_result [of env_no_memory fmt_mode_name world_off]
  by (simp add: env_no_memory_def sample_defs EINVAL_def)

text \<open>
  Claim C7. The mode that a successful get_modes registers does not depend on the state
  it is called in: on any two panels, in any two states, the registered mode is the same,
  the constant \<open>samsung_s6e3ha8_mode\<close> with its type set to driver and preferred and
  its name written by the framework. So \<open>n\<close> successful calls in a row add \<open>n\<close>
  copies of that one mode. The constant itself is a constant of the logic, as it is
  \<^verbatim>\<open>static const\<close> in C: no callback has it in the state it returns.
\<close>

theorem get_modes_idempotent:
  assumes "mode_duplicate_ok e" and "mode_duplicate_ok e'"
  shows "last (probed_modes (connector (snd (s6e3ha8_get_modes fmt e w)))) =
           last (probed_modes (connector (snd (s6e3ha8_get_modes fmt e' w')))) \<and>
         fst (s6e3ha8_get_modes fmt e (((\<lambda>v. snd (s6e3ha8_get_modes fmt e v)) ^^ n) w)) = 1 \<and>
         probed_modes (connector (((\<lambda>v. snd (s6e3ha8_get_modes fmt e v)) ^^ n) w)) =
           probed_modes (connector w) @
           replicate n
             (samsung_s6e3ha8_mode\<lparr> type := DRM_MODE_TYPE_DRIVER OR DRM_MODE_TYPE_PREFERRED,
                                     name := fmt samsung_s6e3ha8_mode \<rparr>)"
proof (intro conjI)
  show "last (probed_modes (connector (snd (s6e3ha8_get_modes fmt e w)))) =
          last (probed_modes (connector (snd (s6e3ha8_get_modes fmt e' w'))))"
    by (simp add: get_modes_ok(2) [OF assms(1)] get_modes_ok(2) [OF assms(2)])
  show "fst (s6e3ha8_get_modes fmt e (((\<lambda>v. snd (s6e3ha8_get_modes fmt e v)) ^^ n) w)) = 1"
    by (rule get_modes_ok(1) [OF assms(1)])
  show "probed_modes (connector (((\<lambda>v. snd (s6e3ha8_get_modes fmt e v)) ^^ n) w)) =
          probed_modes (connector w) @
          replicate n
            (samsung_s6e3ha8_mode\<lparr> type := DRM_MODE_TYPE_DRIVER OR DRM_MODE_TYPE_PREFERRED,
                                    name := fmt samsung_s6e3ha8_mode \<rparr>)"
  proof (induction n)
    case 0
    show ?case by simp
  next
    case (Suc n)
    then show ?case
      by (simp add: get_modes_ok(2) [OF assms(1)] replicate_append_same)
  qed
qed

theorem get_modes_idempotent_witness:
  "mode_duplicate_ok env_ok \<and>
   last (probed_modes (connector (snd (s6e3ha8_get_modes fmt_mode_name env_ok world_off)))) =
     last (probed_modes (connector (snd (s6e3ha8_get_modes fmt_mode_name env_ok world_on)))) \<and>
   probed_modes (connector (((\<lambda>v. snd (s6e3ha8_get_modes fmt_mode_name env_ok v)) ^^ 3) world_off)) =
     [samsung_s6e3ha8_mode\<lparr> type := 72, name := ''1440x2960'' \<rparr>,
      samsung_s6e3ha8_mode\<lparr> type := 72, name := ''1440x2960'' \<rparr>,
      samsung_s6e3ha8_mode\<lparr> type := 72, name := ''1440x2960'' \<rparr>]"
proof -
  have ok: "mode_duplicate_ok env_ok"
    by (simp add: env_ok_def)
  have flags: "DRM_MODE_TYPE_DRIVER OR DRM_MODE_TYPE_PREFERRED = 72"
    by (simp add: DRM_MODE_TYPE_DRIVER_def DRM_MODE_TYPE_PREFERRED_def)
  have three: "replicate 3 x = [x, x, x]" for x :: drm_display_mode
    by (simp add: numeral_3_eq_3)
  from get_modes_idempotent [OF ok ok, of fmt_mode_name world_off world_on 3]
  show ?thesis
    using ok by (simp add: flags three world_off_def connector0_def fmt_mode_name_def)
qed

end
